theory Spec2Isabelle
  imports Main
begin

section \<open>Texts\<close>

text \<open>
  A Python \<^verbatim>\<open>str\<close> is modelled as a \<^typ>\<open>string\<close> whose characters are the code
  points below 256. The classifications that follow are Python's on that range.
\<close>

definition isspace :: "char \<Rightarrow> bool" where
  "isspace c = (of_char c \<in> {9, 10, 11, 12, 13, 28, 29, 30, 31, 32, 133, 160 :: nat})"

definition isalpha_char :: "char \<Rightarrow> bool" where
  "isalpha_char c =
     (let n = of_char c :: nat
      in (65 \<le> n \<and> n \<le> 90) \<or> (97 \<le> n \<and> n \<le> 122) \<or> n = 170 \<or> n = 181 \<or> n = 186 \<or>
         (192 \<le> n \<and> n \<le> 214) \<or> (216 \<le> n \<and> n \<le> 246) \<or> 248 \<le> n)"

definition isdigit_char :: "char \<Rightarrow> bool" where
  "isdigit_char c =
     (let n = of_char c :: nat in (48 \<le> n \<and> n \<le> 57) \<or> n = 178 \<or> n = 179 \<or> n = 185)"

definition lower_char :: "char \<Rightarrow> char" where
  "lower_char c =
     (let n = of_char c :: nat
      in if (65 \<le> n \<and> n \<le> 90) \<or> (192 \<le> n \<and> n \<le> 214) \<or> (216 \<le> n \<and> n \<le> 222)
         then char_of (n + 32) else c)"

text \<open>\<^verbatim>\<open>s.isalpha()\<close>, \<^verbatim>\<open>s.lower()\<close>, \<^verbatim>\<open>s.strip()\<close>.\<close>

definition isalpha :: "string \<Rightarrow> bool" where
  "isalpha s = (s \<noteq> [] \<and> list_all isalpha_char s)"

definition lower :: "string \<Rightarrow> string" where
  "lower s = map lower_char s"

definition strip :: "string \<Rightarrow> string" where
  "strip s = rev (dropWhile isspace (rev (dropWhile isspace s)))"

text \<open>
  \<^verbatim>\<open>s.split()\<close>: the maximal runs of characters that are not white space. \<open>cur\<close> is
  the run being read, reversed.
\<close>

fun split_from :: "string \<Rightarrow> string \<Rightarrow> string list" where
  "split_from cur [] = (if cur = [] then [] else [rev cur])"
| "split_from cur (c # cs) =
     (if isspace c then (if cur = [] then split_from [] cs else rev cur # split_from [] cs)
      else split_from (c # cur) cs)"

definition split :: "string \<Rightarrow> string list" where
  "split s = split_from [] s"

text \<open>\<^verbatim>\<open>s.startswith(p)\<close>, \<^verbatim>\<open>s.endswith(p)\<close> and \<^verbatim>\<open>p in s\<close>.\<close>

definition startswith :: "string \<Rightarrow> string \<Rightarrow> bool" where
  "startswith s p = (take (length p) s = p)"

definition endswith :: "string \<Rightarrow> string \<Rightarrow> bool" where
  "endswith s p = startswith (rev s) (rev p)"

fun contains :: "string \<Rightarrow> string \<Rightarrow> bool" where
  "contains [] p = (p = [])"
| "contains (c # cs) p = (startswith (c # cs) p \<or> contains cs p)"

text \<open>
  \<^verbatim>\<open>s.split('//')\<close>: the pieces between the occurrences of two slashes, read from
  the left.
\<close>

fun split_slashes :: "string \<Rightarrow> string \<Rightarrow> string list" where
  "split_slashes cur [] = [rev cur]"
| "split_slashes cur [c] = [rev (c # cur)]"
| "split_slashes cur (c # d # cs) =
     (if c = CHR ''/'' \<and> d = CHR ''/'' then rev cur # split_slashes [] cs
      else split_slashes (c # cur) (d # cs))"

section \<open>Python values used by the pipeline\<close>

text \<open>
  The exceptions the modelled code can raise. A raise is the left summand of a result.
\<close>

datatype error =
    Exception string
  | FileNotFoundError
  | EmptyDataError
  | AttributeError
  | IndexError
  | KeyError
  | RequestException

text \<open>
  A member of the active queue, an entry of a reference set and a caption are a text or
  something that is not a text (NaN, \<^verbatim>\<open>None\<close>, a number); \<open>None\<close> is what is not a
  text.
\<close>

type_synonym cell = "string option"

section \<open>Data frames\<close>

text \<open>
  A cell of a data frame is the missing value NaN, a text, or a number or boolean that
  the CSV reader made of a field. The model does not compute with numbers and booleans:
  \<open>Typed p\<close> is such a value, \<open>p\<close> the text that \<^verbatim>\<open>str\<close> and \<^verbatim>\<open>to_csv\<close>
  give for it, and what pandas makes of frames that hold one is a parameter of the model
  (\<open>typed_merge\<close> below).

  A frame has its column labels in order and its rows in order; a row lists one cell per
  column. Row labels (the index) are never written to a file (\<^verbatim>\<open>index=False\<close>)
  and are left out.
\<close>

datatype entry = NaN | Text string | Typed string

record frame =
  columns :: "string list"
  rws :: "entry list list"

definition cell_at :: "string list \<Rightarrow> entry list \<Rightarrow> string \<Rightarrow> entry" where
  "cell_at cs r c = (case map_of (zip cs r) c of None \<Rightarrow> NaN | Some v \<Rightarrow> v)"

text \<open>The rows of a frame laid out on the columns \<open>cs\<close>; a column the frame lacks is NaN.\<close>

definition reindex :: "string list \<Rightarrow> frame \<Rightarrow> entry list list" where
  "reindex cs f = map (\<lambda>r. map (cell_at (columns f) r) cs) (rws f)"

text \<open>
  \<^verbatim>\<open>pd.concat([df1, df2])\<close>: the columns of the first frame, then the columns only
  the second has; the rows of the first, then the rows of the second.
\<close>

definition pd_concat :: "frame \<Rightarrow> frame \<Rightarrow> frame" where
  "pd_concat df1 df2 =
     (let cs = columns df1 @ filter (\<lambda>c. c \<notin> set (columns df1)) (columns df2)
      in \<lparr>columns = cs, rws = reindex cs df1 @ reindex cs df2\<rparr>)"

text \<open>
  Keeping the first row of every key, in order. \<open>seen\<close> holds the keys already kept.
\<close>

fun keep_first :: "('r \<Rightarrow> 'k) \<Rightarrow> 'k list \<Rightarrow> 'r list \<Rightarrow> 'r list" where
  "keep_first key seen [] = []"
| "keep_first key seen (r # rs) =
     (if key r \<in> set seen then keep_first key seen rs
      else r # keep_first key (key r # seen) rs)"

text \<open>
  \<^verbatim>\<open>df.drop_duplicates(subset=subset_cols)\<close>: two rows are duplicates when they
  agree on every column of \<open>subset_cols\<close> (NaN agrees with NaN); the first one stays.
\<close>

definition drop_duplicates :: "string list \<Rightarrow> frame \<Rightarrow> frame" where
  "drop_duplicates subset_cols df =
     df\<lparr>rws := keep_first (\<lambda>r. map (cell_at (columns df) r) subset_cols) [] (rws df)\<rparr>"

text \<open>
  What the model takes from pandas without computing it:
  \<^item> \<open>infer\<close>: the cell that \<^verbatim>\<open>pd.read_csv\<close> makes of a field which, by its own
    text, could be a number or a boolean. The reader decides by column (and, in a large
    file, by chunk), so the cell depends on the lines of the file and on the place of the
    field, its line and its column;
  \<^item> \<open>typed_merge\<close>: the result of \<^verbatim>\<open>pd.concat\<close> followed by
    \<^verbatim>\<open>drop_duplicates\<close> on two frames of which one holds a number or a boolean
    (the types of the columns are then merged, and values are compared as numbers).
\<close>

record pandas =
  infer :: "string list list \<Rightarrow> nat \<Rightarrow> nat \<Rightarrow> entry"
  typed_merge :: "frame \<Rightarrow> frame \<Rightarrow> frame"

fun is_typed :: "entry \<Rightarrow> bool" where
  "is_typed (Typed p) = True"
| "is_typed NaN = False"
| "is_typed (Text s) = False"

definition has_typed :: "frame \<Rightarrow> bool" where
  "has_typed df = list_ex (list_ex is_typed) (rws df)"

definition concat_and_filter_unique_values :: "pandas \<Rightarrow> frame \<Rightarrow> frame \<Rightarrow> frame" where
  "concat_and_filter_unique_values P df1 df2 =
     (if has_typed df1 \<or> has_typed df2 then typed_merge P df1 df2
      else (let combined_df = pd_concat df1 df2
            in drop_duplicates (columns df1) combined_df))"

section \<open>CSV files\<close>

text \<open>
  A CSV file is its header line and its data lines, every field a text. The file system
  maps a path to the file stored there.
\<close>

record csv_file =
  header :: "string list"
  lines :: "string list list"

type_synonym store = "string \<rightharpoonup> csv_file"

text \<open>The field texts that \<^verbatim>\<open>pd.read_csv\<close> reads as NaN by default.\<close>

definition na_values :: "string list" where
  "na_values = ['''', ''#N/A'', ''#N/A N/A'', ''#NA'', ''-1.#IND'', ''-1.#QNAN'', ''-NaN'',
     ''-nan'', ''1.#IND'', ''1.#QNAN'', ''<NA>'', ''N/A'', ''NA'', ''NULL'', ''NaN'', ''None'',
     ''n/a'', ''nan'', ''null'']"

text \<open>
  \<^verbatim>\<open>pd.read_csv\<close> is called without \<^verbatim>\<open>dtype\<close> and turns a column whose fields
  all spell integers, floats or booleans into numbers or booleans. A field is certainly
  read as the text it is when it spells none of these, wherever it stands: a number is,
  between white space and after one sign, a digit or a point followed by more, or
  \<^verbatim>\<open>inf\<close>, \<^verbatim>\<open>infinity\<close> or \<^verbatim>\<open>nan\<close> in any case, and a boolean is
  \<^verbatim>\<open>true\<close> or \<^verbatim>\<open>false\<close> in some cases. The test is on the safe side: a field
  that fails it may still be read as a text.
\<close>

fun unsigned :: "string \<Rightarrow> string" where
  "unsigned [] = []"
| "unsigned (c # cs) = (if c = CHR ''+'' \<or> c = CHR ''-'' then cs else c # cs)"

definition certainly_text :: "string \<Rightarrow> bool" where
  "certainly_text s =
     (case unsigned (strip s) of
        [] \<Rightarrow> False
      | c # cs \<Rightarrow>
          \<not> (48 \<le> (of_char c :: nat) \<and> (of_char c :: nat) \<le> 57) \<and> c \<noteq> CHR ''.'' \<and>
          lower (c # cs) \<notin> set [''inf'', ''infinity'', ''nan'', ''true'', ''false''])"

text \<open>
  The cell read from the field \<open>s\<close> in line \<open>i\<close> and column \<open>j\<close> of the lines
  \<open>ls\<close>.
\<close>

definition csv_value :: "pandas \<Rightarrow> string list list \<Rightarrow> nat \<Rightarrow> nat \<Rightarrow> string \<Rightarrow> entry" where
  "csv_value P ls i j s =
     (if s \<in> set na_values then NaN
      else if certainly_text s then Text s
      else infer P ls i j)"

fun parse_line :: "pandas \<Rightarrow> string list list \<Rightarrow> nat \<Rightarrow> nat \<Rightarrow> string list \<Rightarrow> entry list" where
  "parse_line P ls i j [] = []"
| "parse_line P ls i j (s # ss) = csv_value P ls i j s # parse_line P ls i (Suc j) ss"

fun parse_lines :: "pandas \<Rightarrow> string list list \<Rightarrow> nat \<Rightarrow> string list list \<Rightarrow> entry list list"
  where
  "parse_lines P ls i [] = []"
| "parse_lines P ls i (l # rest) = parse_line P ls i 0 l # parse_lines P ls (Suc i) rest"

text \<open>\<^verbatim>\<open>to_csv\<close> writes NaN as the empty field.\<close>

definition csv_text :: "entry \<Rightarrow> string" where
  "csv_text c = (case c of NaN \<Rightarrow> '''' | Text s \<Rightarrow> s | Typed p \<Rightarrow> p)"

text \<open>
  \<^verbatim>\<open>pd.read_csv(path)\<close> raises when the path does not exist and when the file has
  no column to parse.
\<close>

definition read_csv :: "pandas \<Rightarrow> store \<Rightarrow> string \<Rightarrow> error + frame" where
  "read_csv P st path =
     (case st path of
        None \<Rightarrow> Inl FileNotFoundError
      | Some f \<Rightarrow>
          if header f = [] then Inl EmptyDataError
          else Inr \<lparr>columns = header f, rws = parse_lines P (lines f) 0 (lines f)\<rparr>)"

text \<open>\<^verbatim>\<open>df.to_csv(path, index=False)\<close> replaces whatever the path held.\<close>

definition to_csv :: "store \<Rightarrow> string \<Rightarrow> frame \<Rightarrow> store" where
  "to_csv st path df =
     st(path \<mapsto> \<lparr>header = columns df, lines = map (map csv_text) (rws df)\<rparr>)"

text \<open>The argument \<^verbatim>\<open>new_contents: list[str] | pd.DataFrame\<close>.\<close>

datatype contents = StrList "string list" | DataFrame frame

text \<open>
  \<^verbatim>\<open>overwrite_file\<close>. \<^verbatim>\<open>pd.read_csv\<close> returns a frame or raises, so the
  branch \<^verbatim>\<open>old_contents is None\<close> of the source is never taken.
\<close>

definition overwrite_file ::
  "pandas \<Rightarrow> store \<Rightarrow> string \<Rightarrow> contents \<Rightarrow> string \<Rightarrow> error + store" where
  "overwrite_file P st filename new_contents file_type =
     (if file_type = ''csv'' then
        (case new_contents of
           StrList _ \<Rightarrow> Inl (Exception ''Use a panda dataframe for writing into a csv file'')
         | DataFrame df \<Rightarrow>
             (case read_csv P st filename of
                Inl e \<Rightarrow> Inl e
              | Inr old_contents \<Rightarrow>
                  Inr (to_csv st filename
                         (concat_and_filter_unique_values P old_contents df))))
      else Inl (Exception ''invalid file_type, only csvs are accepted''))"


definition plain_field :: "string \<Rightarrow> bool" where
  "plain_field s = (s \<in> set na_values \<or> certainly_text s)"



text \<open>What the reader makes of a field of a file that holds texts only.\<close>

definition csv_plain :: "string \<Rightarrow> entry" where
  "csv_plain s = (if s \<in> set na_values then NaN else Text s)"



section \<open>The reference sets of names\<close>

text \<open>
  \<^verbatim>\<open>PERSON_DB\<close> is the empty list when its file is missing and otherwise the first
  column of the file; \<^verbatim>\<open>get_data_from_db\<close> discards the result of
  \<^verbatim>\<open>dropna\<close>, so an entry can be NaN, a float. It is a parameter of the functions
  that read it. The argument \<^verbatim>\<open>caption\<close> is a text or a float.

  \<^verbatim>\<open>contains_person_name\<close> of \<^verbatim>\<open>concept_extraction.py\<close>: some entry has all its
  words among the words of the caption. An entry that is a float has no \<^verbatim>\<open>split\<close>.
\<close>

fun person_loop :: "string list \<Rightarrow> cell list \<Rightarrow> error + bool" where
  "person_loop caption_words [] = Inr False"
| "person_loop caption_words (name # names) =
     (case name of
        None \<Rightarrow> Inl AttributeError
      | Some n \<Rightarrow>
          if list_all (\<lambda>word. word \<in> set caption_words) (split n) then Inr True
          else person_loop caption_words names)"

definition contains_person_name :: "cell list \<Rightarrow> cell \<Rightarrow> error + bool" where
  "contains_person_name PERSON_DB caption =
     (case caption of
        None \<Rightarrow> Inr False
      | Some c \<Rightarrow> person_loop (split c) PERSON_DB)"

text \<open>
  \<^verbatim>\<open>contains_person_name\<close> of \<^verbatim>\<open>concept_filtering.py\<close>, the later refinement
  stage: some word of some entry is among the words of the caption.
\<close>

fun subname_loop :: "string list \<Rightarrow> string list \<Rightarrow> bool" where
  "subname_loop caption_words [] = False"
| "subname_loop caption_words (subname # name_words) =
     (if subname \<in> set caption_words then True else subname_loop caption_words name_words)"

fun filtering_person_loop :: "string list \<Rightarrow> cell list \<Rightarrow> error + bool" where
  "filtering_person_loop caption_words [] = Inr False"
| "filtering_person_loop caption_words (name # names) =
     (case name of
        None \<Rightarrow> Inl AttributeError
      | Some n \<Rightarrow>
          if subname_loop caption_words (split n) then Inr True
          else filtering_person_loop caption_words names)"

definition filtering_contains_person_name :: "cell list \<Rightarrow> cell \<Rightarrow> error + bool" where
  "filtering_contains_person_name PERSON_DB caption =
     (case caption of
        None \<Rightarrow> Inr False
      | Some c \<Rightarrow> filtering_person_loop (split c) PERSON_DB)"

section \<open>Parsed pages\<close>

text \<open>
  A parsed page is the list of its nodes in document order. A tag carries its name, its
  attributes and the number of nodes below it, so the nodes below the tag at position
  \<open>j\<close> are the next that many. A \<^verbatim>\<open>Tag\<close> object of the parser is a position in
  the page.
\<close>

datatype item = TextItem string | TagItem string "(string \<times> string) list" nat

type_synonym soup = "item list"

fun is_tag :: "string \<Rightarrow> item \<Rightarrow> bool" where
  "is_tag name (TagItem n _ _) = (n = name)"
| "is_tag name (TextItem _) = False"

fun attrs :: "item \<Rightarrow> (string \<times> string) list" where
  "attrs (TagItem _ as _) = as"
| "attrs (TextItem _) = []"

fun extent :: "item \<Rightarrow> nat" where
  "extent (TagItem _ _ n) = n"
| "extent (TextItem _) = 0"

fun text_of :: "item \<Rightarrow> string" where
  "text_of (TextItem s) = s"
| "text_of (TagItem _ _ _) = []"

definition inside :: "soup \<Rightarrow> nat \<Rightarrow> nat list" where
  "inside d j = [Suc j ..< min (length d) (Suc j + extent (d ! j))]"

definition everywhere :: "soup \<Rightarrow> nat list" where
  "everywhere d = [0 ..< length d]"

text \<open>
  \<^verbatim>\<open>tag.get(a)\<close>, \<^verbatim>\<open>find_all(name)\<close>, \<^verbatim>\<open>find(name)\<close>, \<^verbatim>\<open>find(id=x)\<close>
  over the positions \<open>scope\<close>, \<^verbatim>\<open>tag.find_next(name)\<close> (the first such tag later in
  the page, below the tag or after it) and \<^verbatim>\<open>tag.get_text()\<close>.
\<close>

definition get_attr :: "soup \<Rightarrow> nat \<Rightarrow> string \<Rightarrow> string option" where
  "get_attr d k a = map_of (attrs (d ! k)) a"

definition find_all :: "soup \<Rightarrow> nat list \<Rightarrow> string \<Rightarrow> nat list" where
  "find_all d scope name = filter (\<lambda>k. is_tag name (d ! k)) scope"

definition find_tag :: "soup \<Rightarrow> nat list \<Rightarrow> string \<Rightarrow> nat option" where
  "find_tag d scope name = (case find_all d scope name of [] \<Rightarrow> None | k # _ \<Rightarrow> Some k)"

definition find_id :: "soup \<Rightarrow> nat list \<Rightarrow> string \<Rightarrow> nat option" where
  "find_id d scope x =
     (case filter (\<lambda>k. get_attr d k ''id'' = Some x) scope of [] \<Rightarrow> None | k # _ \<Rightarrow> Some k)"

definition find_next :: "soup \<Rightarrow> nat \<Rightarrow> string \<Rightarrow> nat option" where
  "find_next d j name = find_tag d [Suc j ..< length d] name"

definition get_text :: "soup \<Rightarrow> nat \<Rightarrow> string" where
  "get_text d k = concat (map (\<lambda>j. text_of (d ! j)) (inside d k))"

text \<open>
  The selector \<^verbatim>\<open>li.interlanguage-link > a\<close>: the anchors whose parent is a list
  item of that class. The parent of a node is the nearest earlier tag that reaches it.
\<close>

definition parent :: "soup \<Rightarrow> nat \<Rightarrow> nat option" where
  "parent d k =
     (case filter (\<lambda>j. k \<le> j + extent (d ! j)) (rev [0 ..< k]) of
        [] \<Rightarrow> None | j # _ \<Rightarrow> Some j)"

definition classes :: "soup \<Rightarrow> nat \<Rightarrow> string list" where
  "classes d j = (case get_attr d j ''class'' of None \<Rightarrow> [] | Some c \<Rightarrow> split c)"

definition select_interlanguage :: "soup \<Rightarrow> nat list" where
  "select_interlanguage d =
     filter (\<lambda>k. is_tag ''a'' (d ! k) \<and>
        (case parent d k of
           None \<Rightarrow> False
         | Some j \<Rightarrow> is_tag ''li'' (d ! j) \<and> ''interlanguage-link'' \<in> set (classes d j)))
       (everywhere d)"

section \<open>The extractors\<close>

text \<open>
  A Python set is modelled by the list of its members in the order they were added;
  \<^verbatim>\<open>list(s)\<close> may give any order, and no statement below depends on it.
\<close>

definition set_add :: "'a \<Rightarrow> 'a list \<Rightarrow> 'a list" where
  "set_add x s = (if x \<in> set s then s else s @ [x])"

definition get_all_italic_words :: "soup \<Rightarrow> nat \<Rightarrow> frame" where
  "get_all_italic_words d soup_content =
     (let italic_words =
        foldl (\<lambda>ws tag.
                 let italic_phrase = strip (get_text d tag)
                 in if isalpha italic_phrase \<and> length italic_phrase > 1
                    then set_add (lower italic_phrase) ws else ws)
          [] (find_all d (inside d soup_content) ''i'')
      in \<lparr>columns = [''concepts''], rws = map (\<lambda>w. [Text w]) italic_words\<rparr>)"

text \<open>
  The test of \<^verbatim>\<open>get_captioned_images\<close> on a caption:
  \<^verbatim>\<open>any(char.isdigit() for char in c) or not contains_person_name(c)\<close>.
\<close>

definition keeps_caption :: "cell list \<Rightarrow> string \<Rightarrow> error + bool" where
  "keeps_caption PERSON_DB c =
     (if list_ex isdigit_char c then Inr True
      else (case contains_person_name PERSON_DB (Some c) of
              Inl e \<Rightarrow> Inl e
            | Inr b \<Rightarrow> Inr (\<not> b)))"

definition image_suffix :: "string \<Rightarrow> bool" where
  "image_suffix s = (endswith s ''jpg'' \<or> endswith s ''jpeg'' \<or> endswith s ''gif'')"

text \<open>
  The first loop of \<^verbatim>\<open>get_captioned_images\<close>, over the figures. The accumulator is
  \<^verbatim>\<open>(img_captions, img_sources)\<close>. \<^verbatim>\<open>fig.find("figcaption")\<close> and
  \<^verbatim>\<open>img.get("src")\<close> can be \<^verbatim>\<open>None\<close>, which has neither \<^verbatim>\<open>get_text\<close> nor
  \<^verbatim>\<open>endswith\<close>.
\<close>

fun figure_scan ::
  "cell list \<Rightarrow> soup \<Rightarrow> nat list \<Rightarrow> string list \<times> string list \<Rightarrow>
   error + (string list \<times> string list)" where
  "figure_scan PERSON_DB d [] acc = Inr acc"
| "figure_scan PERSON_DB d (fig # figs) (img_captions, img_sources) =
     (case find_tag d (inside d fig) ''img'' of
        None \<Rightarrow> figure_scan PERSON_DB d figs (img_captions, img_sources)
      | Some img \<Rightarrow>
          (case find_tag d (inside d fig) ''figcaption'' of
             None \<Rightarrow> Inl AttributeError
           | Some cap \<Rightarrow>
               (let img_caption = lower (strip (get_text d cap));
                    img_src = get_attr d img ''src''
                in case keeps_caption PERSON_DB img_caption of
                     Inl e \<Rightarrow> Inl e
                   | Inr False \<Rightarrow> figure_scan PERSON_DB d figs (img_captions, img_sources)
                   | Inr True \<Rightarrow>
                       (case img_src of
                          None \<Rightarrow> Inl AttributeError
                        | Some src \<Rightarrow>
                            if image_suffix src
                            then figure_scan PERSON_DB d figs
                                   (img_captions @ [img_caption], img_sources @ [src])
                            else figure_scan PERSON_DB d figs (img_captions, img_sources)))))"

text \<open>
  The second loop, over all images. \<^verbatim>\<open>img_sources\<close> holds texts, so an image
  without \<^verbatim>\<open>src\<close> passes \<^verbatim>\<open>img_src not in img_sources\<close> and fails at
  \<^verbatim>\<open>img_src.endswith\<close>.
\<close>

fun alt_scan ::
  "cell list \<Rightarrow> soup \<Rightarrow> nat list \<Rightarrow> string list \<times> string list \<Rightarrow>
   error + (string list \<times> string list)" where
  "alt_scan PERSON_DB d [] acc = Inr acc"
| "alt_scan PERSON_DB d (img # imgs) (img_captions, img_sources) =
     (case get_attr d img ''src'' of
        None \<Rightarrow> Inl AttributeError
      | Some img_src \<Rightarrow>
          (case get_attr d img ''alt'' of
             None \<Rightarrow> alt_scan PERSON_DB d imgs (img_captions, img_sources)
           | Some alt \<Rightarrow>
               if img_src \<notin> set img_sources \<and> image_suffix img_src \<and> alt \<noteq> ''''
               then (let img_title = lower (strip alt)
                     in case keeps_caption PERSON_DB img_title of
                          Inl e \<Rightarrow> Inl e
                        | Inr True \<Rightarrow>
                            alt_scan PERSON_DB d imgs
                              (img_captions @ [img_title], img_sources @ [img_src])
                        | Inr False \<Rightarrow> alt_scan PERSON_DB d imgs (img_captions, img_sources))
               else alt_scan PERSON_DB d imgs (img_captions, img_sources)))"

definition get_captioned_images :: "cell list \<Rightarrow> soup \<Rightarrow> nat \<Rightarrow> error + frame" where
  "get_captioned_images PERSON_DB d soup_content =
     (case figure_scan PERSON_DB d (find_all d (inside d soup_content) ''figure'') ([], []) of
        Inl e \<Rightarrow> Inl e
      | Inr acc \<Rightarrow>
          (case alt_scan PERSON_DB d (find_all d (inside d soup_content) ''img'') acc of
             Inl e \<Rightarrow> Inl e
           | Inr (img_captions, img_sources) \<Rightarrow>
               Inr \<lparr>columns = [''img_source'', ''img_captions''],
                    rws = map (\<lambda>(s, c). [Text s, Text c]) (zip img_sources img_captions)\<rparr>))"

text \<open>
  The table \<^verbatim>\<open>language_prefixes\<close> of \<^verbatim>\<open>extract_link_concepts_and_urls\<close>. The
  section names for \<^verbatim>\<open>zh\<close> and \<^verbatim>\<open>ko\<close> lie outside the modelled characters, so no
  \<^verbatim>\<open>id\<close> of a modelled page equals them; they are \<open>None\<close> here.
\<close>

definition language_prefixes :: "(string \<times> string option) list" where
  "language_prefixes =
     [(''en'', Some ''References''), (''es'', Some ''Referencias''), (''de'', Some ''Weblinks''),
      (''zh'', None), (''ko'', None)]"

text \<open>\<^verbatim>\<open>current_url.split('//')[1][:2]\<close>.\<close>

definition language_code :: "string \<Rightarrow> error + string" where
  "language_code current_url =
     (case split_slashes [] current_url of
        _ # part # _ \<Rightarrow> Inr (take 2 part)
      | _ \<Rightarrow> Inl IndexError)"

text \<open>
  The loop over the anchors. It stops at the first anchor whose \<^verbatim>\<open>href\<close> equals
  the \<^verbatim>\<open>href\<close> of the first anchor after the reference section. The accumulator is
  \<^verbatim>\<open>(url_concepts, scraped_urls)\<close>. A kept link without \<^verbatim>\<open>title\<close> fails at
  \<^verbatim>\<open>concept_title.isalpha()\<close>.
\<close>

fun link_loop ::
  "soup \<Rightarrow> nat option \<Rightarrow> nat list \<Rightarrow> string list \<times> string list \<Rightarrow>
   error + (string list \<times> string list)" where
  "link_loop d reference_section [] acc = Inr acc"
| "link_loop d reference_section (link # links) (url_concepts, scraped_urls) =
     (let concept_title = get_attr d link ''title'';
          href = get_attr d link ''href''
      in case (case reference_section of
                 None \<Rightarrow> Inr False
               | Some rs \<Rightarrow>
                   (case find_next d rs ''a'' of
                      None \<Rightarrow> Inl AttributeError
                    | Some nxt \<Rightarrow> Inr (href = get_attr d nxt ''href''))) of
           Inl e \<Rightarrow> Inl e
         | Inr True \<Rightarrow> Inr (url_concepts, scraped_urls)
         | Inr False \<Rightarrow>
             (case href of
                None \<Rightarrow> link_loop d reference_section links (url_concepts, scraped_urls)
              | Some h \<Rightarrow>
                  if h \<noteq> '''' \<and> startswith h ''/wiki/'' \<and> \<not> contains h '':'' \<and>
                     \<not> contains h ''(identifier)''
                  then (case concept_title of
                          None \<Rightarrow> Inl AttributeError
                        | Some t \<Rightarrow>
                            link_loop d reference_section links
                              (if isalpha t \<and> length t > 1
                               then set_add (lower t) url_concepts else url_concepts,
                               set_add h scraped_urls))
                  else link_loop d reference_section links (url_concepts, scraped_urls)))"

definition extract_link_concepts_and_urls ::
  "soup \<Rightarrow> nat \<Rightarrow> string \<Rightarrow> error + (frame \<times> frame)" where
  "extract_link_concepts_and_urls d soup_content current_url =
     (case language_code current_url of
        Inl e \<Rightarrow> Inl e
      | Inr code \<Rightarrow>
          (case map_of language_prefixes code of
             None \<Rightarrow> Inr (\<lparr>columns = [''urls''], rws = []\<rparr>, \<lparr>columns = [''concepts''], rws = []\<rparr>)
           | Some section_id \<Rightarrow>
               (let reference_section =
                      (case section_id of
                         None \<Rightarrow> None
                       | Some x \<Rightarrow> find_id d (inside d soup_content) x);
                    outgoing_links = find_all d (inside d soup_content) ''a''
                in case link_loop d reference_section outgoing_links ([], []) of
                     Inl e \<Rightarrow> Inl e
                   | Inr (url_concepts, scraped_urls) \<Rightarrow>
                       Inr (\<lparr>columns = [''urls''], rws = map (\<lambda>u. [Text u]) scraped_urls\<rparr>,
                            \<lparr>columns = [''concepts''],
                               rws = map (\<lambda>c. [Text c]) url_concepts\<rparr>))))"

text \<open>
  The keyword tables, in the order of the source. Keys with a character outside the
  modelled range (the Chinese and Korean ones) occur in no modelled text and are left out;
  a key the source lists twice stands at its first place.
\<close>

definition CULTURES :: "(string \<times> string) list" where
  "CULTURES =
    [(''german'', ''german''), (''germany'', ''german''), (''spanish'', ''spanish''),
     (''spain'', ''spanish''), (''chinese'', ''chinese''), (''china'', ''chinese''),
     (''korean'', ''korean''), (''korea'', ''korean''), (''deutsch'', ''german''),
     (''deutschland'', ''german''), (''spanisch'', ''spanish''), (''spanien'', ''spanish''),
     (''chinesisch'', ''chinese''), (''koreanisch'', ''korean''),
     (''alem'' @ [CHR 0xE1] @ ''n'', ''german''), (''alemania'', ''german''),
     (''espa'' @ [CHR 0xF1] @ ''ol'', ''spanish''),
     (''espa'' @ [CHR 0xF1] @ ''a'', ''spanish''), (''chino'', ''chinese''),
     (''coreano'', ''korean''), (''andalusia'', ''spanish''), (''aragon'', ''spanish''),
     (''asturias'', ''spanish''), (''balearic islands'', ''spanish''),
     (''basque country'', ''spanish''), (''canary islands'', ''spanish''),
     (''cantabria'', ''spanish''), (''castile and le'' @ [CHR 0xF3] @ ''n'', ''spanish''),
     (''castilla-la mancha'', ''spanish''), (''catalonia'', ''spanish''),
     (''extremadura'', ''spanish''), (''galicia'', ''spanish''),
     (''la rioja'', ''spanish''), (''madrid'', ''spanish''), (''murcia'', ''spanish''),
     (''navarre'', ''spanish''), (''baden-w'' @ [CHR 0xFC] @ ''rttemberg'', ''german''),
     (''bavaria'', ''german''), (''berlin'', ''german''), (''brandenburg'', ''german''),
     (''bremen'', ''german''), (''hamburg'', ''german''), (''hesse'', ''german''),
     (''lower saxony'', ''german''), (''mecklenburg-vorpommern'', ''german''),
     (''north rhine-westphalia'', ''german''), (''rhineland-palatinate'', ''german''),
     (''saarland'', ''german''), (''saxony'', ''german''), (''saxony-anhalt'', ''german''),
     (''schleswig-holstein'', ''german''), (''thuringia'', ''german''),
     (''hebei'', ''chinese''), (''shanxi'', ''chinese''), (''liaoning'', ''chinese''),
     (''jilin'', ''chinese''), (''heilongjiang'', ''chinese''), (''jiangsu'', ''chinese''),
     (''zhejiang'', ''chinese''), (''anhui'', ''chinese''), (''fujian'', ''chinese''),
     (''jiangxi'', ''chinese''), (''shangdong'', ''chinese''), (''henan'', ''chinese''),
     (''hunan'', ''chinese''), (''guangdong'', ''chinese''), (''hainan'', ''chinese''),
     (''sichuan'', ''chinese''), (''guizhuo'', ''chinese''), (''yunnan'', ''chinese''),
     (''gansu'', ''chinese''), (''qinghai'', ''chinese''), (''chungcheong'', ''korean''),
     (''gangwon'', ''korean''), (''gyeonggi'', ''korean''), (''gyeongsang'', ''korean''),
     (''jeonbuk'', ''korean''), (''jeolla'', ''korean''), (''jeju'', ''korean'')]"

definition SEMANTIC_FIELDS :: "(string \<times> string) list" where
  "SEMANTIC_FIELDS =
    [(''beverage'', ''beverages''), (''alcohol'', ''beverages''), (''beer'', ''beverages''),
     (''wine'', ''beverages''), (''celebration'', ''celebration''), (''dish'', ''food''),
     (''cuisine'', ''food''), (''food'', ''food''), (''clothing'', ''clothing''),
     (''fruit'', ''fruit''), (''houses'', ''houses''), (''instrument'', ''music''),
     (''religion'', ''religion''), (''sport'', ''sport''), (''utensil'', ''utensil''),
     (''tool'', ''utensil''), (''vegetable'', ''vegetable''),
     (''visual arts'', ''visual arts''), (''getr'' @ [CHR 0xE4] @ ''nk'', ''beverages''),
     (''feier'', ''celebration''), (''essen'', ''food''), (''kleidung'', ''clothing''),
     (''obst'', ''fruit''), (''haus'', ''houses''),
     (''h'' @ [CHR 0xE4] @ ''user'', ''houses''), (''werkzeug'', ''utensil''),
     (''gem'' @ [CHR 0xFC] @ ''se'', ''vegetable''), (''bildende kunst'', ''visual arts''),
     (''bebida'', ''beverages''), (''celebraci'' @ [CHR 0xF3] @ ''n'', ''celebration''),
     (''cocina'', ''food''), (''comida'', ''food''), (''ropa'', ''clothing''),
     (''fruta'', ''fruit''), (''casa'', ''houses''), (''instrumento'', ''music''),
     (''religi'' @ [CHR 0xF3] @ ''n'', ''religion''), (''deporte'', ''sport''),
     (''utensilio'', ''utensil''), (''herramienta'', ''utensil''),
     (''verdura'', ''vegetable''), (''artes visuales'', ''visual arts'')]"

fun first_match :: "(string \<times> string) list \<Rightarrow> string \<Rightarrow> string" where
  "first_match [] title = ''''"
| "first_match ((keyword, label) # rest) title =
     (if contains title keyword then label else first_match rest title)"

definition get_default_culture_and_semantic_field :: "string \<Rightarrow> string \<times> string" where
  "get_default_culture_and_semantic_field title =
     (first_match CULTURES title, first_match SEMANTIC_FIELDS title)"

section \<open>The crawl\<close>

definition START_URLS_FILE :: string where "START_URLS_FILE = ''data/start_urls.csv''"
definition ALL_URLS_FILE :: string where "ALL_URLS_FILE = ''output/all_urls.csv''"
definition CONCEPT_FILE :: string where "CONCEPT_FILE = ''output/concept_candidates.csv''"
definition IMAGES_FILE :: string where "IMAGES_FILE = ''output/images.csv''"
definition ITERATIONS :: nat where "ITERATIONS = 15000"

text \<open>
  \<^verbatim>\<open>requests.get(url)\<close> raises, or returns a response with a status code and a
  body, which \<^verbatim>\<open>BeautifulSoup\<close> parses into a page.
\<close>

datatype response = Raises | Response nat soup

text \<open>\<^verbatim>\<open>if response:\<close> is \<^verbatim>\<open>response.ok\<close>: the status is no error status.\<close>

definition response_ok :: "nat \<Rightarrow> bool" where
  "response_ok code = (\<not> (400 \<le> code \<and> code < 600))"

text \<open>
  What the crawl takes from outside:
  \<^item> \<open>web\<close>: the answer to the request made in a given iteration for a given address;
  \<^item> \<open>person_db\<close>: the reference set of person names;
  \<^item> \<open>pd\<close>: what pandas does with numbers and booleans (see \<^typ>\<open>pandas\<close>);
  \<^item> \<open>read_csv_file\<close>: what \<^verbatim>\<open>pd.read_csv_file\<close> does, which
    \<^verbatim>\<open>select_next_urls_to_jump_to\<close> calls; pandas has \<^verbatim>\<open>read_csv\<close> and no
    function of that name;
  \<^item> \<open>annotate\<close>: \<^verbatim>\<open>find_paragraphs_for_concepts\<close> followed by
    \<^verbatim>\<open>assign_culture_and_semantic_fields_to_concepts\<close>, which label the concepts of
    a page from its paragraphs and touch neither the queues nor the files;
  \<^item> \<open>shuffle\<close>: the order \<^verbatim>\<open>random.shuffle\<close> gives the seeds.
\<close>

record env =
  web :: "nat \<Rightarrow> string \<Rightarrow> response"
  person_db :: "cell list"
  pd :: pandas
  read_csv_file :: "store \<Rightarrow> string \<Rightarrow> error + frame"
  annotate :: "soup \<Rightarrow> frame \<Rightarrow> error + frame"
  shuffle :: "cell list \<Rightarrow> cell list"

text \<open>
  Looking \<^verbatim>\<open>pd.read_csv_file\<close> up in the pandas module raises
  \<^verbatim>\<open>AttributeError\<close>.
\<close>

definition missing_attribute :: "store \<Rightarrow> string \<Rightarrow> error + frame" where
  "missing_attribute st path = Inl AttributeError"

text \<open>
  \<^verbatim>\<open>df[c]\<close>, \<^verbatim>\<open>df[c] = v\<close> for a new column, \<^verbatim>\<open>str(x)\<close>, and a cell
  taken as the address of a request: only a text is one.
\<close>

definition column :: "frame \<Rightarrow> string \<Rightarrow> entry list option" where
  "column df c =
     (if c \<in> set (columns df) then Some (map (\<lambda>r. cell_at (columns df) r c) (rws df))
      else None)"

definition add_column :: "frame \<Rightarrow> string \<Rightarrow> string \<Rightarrow> frame" where
  "add_column df c v = \<lparr>columns = columns df @ [c], rws = map (\<lambda>r. r @ [Text v]) (rws df)\<rparr>"

definition str_of :: "entry \<Rightarrow> string" where
  "str_of c = (case c of NaN \<Rightarrow> ''nan'' | Text s \<Rightarrow> s | Typed p \<Rightarrow> p)"

definition url_of :: "entry \<Rightarrow> cell" where
  "url_of c = (case c of Text s \<Rightarrow> Some s | NaN \<Rightarrow> None | Typed p \<Rightarrow> None)"

text \<open>
  \<^verbatim>\<open>append_multilingual_url\<close>. \<^verbatim>\<open>lang_dict\<close> maps the \<^verbatim>\<open>lang\<close> of an
  interlanguage anchor to its \<^verbatim>\<open>href\<close>, a later anchor replacing an earlier one of
  the same \<^verbatim>\<open>lang\<close>.
\<close>

definition culture_language :: "(string \<times> string) list" where
  "culture_language =
     [(''korean'', ''ko''), (''chinese'', ''zh''), (''spanish'', ''es''), (''german'', ''de'')]"

definition append_multilingual_url ::
  "soup \<Rightarrow> string \<Rightarrow> cell list \<Rightarrow> string list \<Rightarrow> cell list" where
  "append_multilingual_url soup default_culture next_urls visited_urls =
     (let lang_dict =
            map (\<lambda>a. (get_attr soup a ''lang'', get_attr soup a ''href''))
              (select_interlanguage soup)
      in case map_of culture_language default_culture of
           None \<Rightarrow> next_urls
         | Some code \<Rightarrow>
             (case map_of (rev lang_dict) (Some code) of
                None \<Rightarrow> next_urls
              | Some new_link \<Rightarrow>
                  if new_link \<notin> Some ` set visited_urls then next_urls @ [new_link]
                  else next_urls))"

text \<open>
  \<^verbatim>\<open>select_next_urls_to_jump_to\<close>. With no visited address the source tests
  \<^verbatim>\<open>url.startswith\<close>, which only a text has; with some it prefixes every address.
\<close>

fun qualify_all :: "entry list \<Rightarrow> error + string list" where
  "qualify_all [] = Inr []"
| "qualify_all (url # urls) =
     (case url of
        Text u \<Rightarrow>
          (case qualify_all urls of
             Inl e \<Rightarrow> Inl e
           | Inr rest \<Rightarrow>
               Inr ((if \<not> startswith u ''https://'' then ''https://en.wikipedia.org/'' @ u
                     else u) # rest))
      | NaN \<Rightarrow> Inl AttributeError
      | Typed p \<Rightarrow> Inl AttributeError)"

definition select_next_urls_to_jump_to ::
  "env \<Rightarrow> string list \<Rightarrow> store \<Rightarrow> error + (string list \<times> store)" where
  "select_next_urls_to_jump_to E visited_urls st =
     (case read_csv_file E st ALL_URLS_FILE of
        Inl e \<Rightarrow> Inl e
      | Inr url_df \<Rightarrow>
          (case column url_df ''urls'' of
             None \<Rightarrow> Inl KeyError
           | Some urls \<Rightarrow>
               (let new_urls = take 100 urls
                in case (if visited_urls \<noteq> []
                         then Inr (filter (\<lambda>u. u \<notin> set visited_urls)
                                 (map (\<lambda>url. ''https://en.wikipedia.org/'' @ str_of url)
                                    new_urls))
                         else qualify_all new_urls) of
                     Inl e \<Rightarrow> Inl e
                   | Inr next_urls \<Rightarrow>
                       Inr (next_urls,
                            to_csv st ALL_URLS_FILE
                              \<lparr>columns = [''urls''],
                                 rws = map (\<lambda>c. [c]) (drop 100 urls)\<rparr>))))"

text \<open>
  The extraction and persistence steps of an iteration (the images, the outgoing links,
  the concepts), from the body of the page on. They read the visited addresses and change
  the files only.
\<close>

definition persist_page ::
  "env \<Rightarrow> soup \<Rightarrow> nat \<Rightarrow> string \<Rightarrow> string \<Rightarrow> string \<Rightarrow> string list \<Rightarrow> store \<Rightarrow> error + store"
  where
  "persist_page E soup soup_content current_url default_culture default_semantic_field
       visited_urls st =
     (case get_captioned_images (person_db E) soup soup_content of
        Inl e \<Rightarrow> Inl e
      | Inr images \<Rightarrow>
          (let page_images =
                 add_column (add_column images ''culture'' default_culture)
                   ''semantic_field'' default_semantic_field
           in case overwrite_file (pd E) st IMAGES_FILE (DataFrame page_images) ''csv'' of
                Inl e \<Rightarrow> Inl e
              | Inr st1 \<Rightarrow>
                  (case extract_link_concepts_and_urls soup soup_content current_url of
                     Inl e \<Rightarrow> Inl e
                   | Inr (outgoing_links, url_concepts) \<Rightarrow>
                       (let page_outgoing_urls =
                              outgoing_links
                                \<lparr>rws := filter
                                   (\<lambda>r. cell_at (columns outgoing_links) r ''urls''
                                          \<notin> Text ` set visited_urls)
                                   (rws outgoing_links)\<rparr>
                        in case overwrite_file (pd E) st1 ALL_URLS_FILE
                                  (DataFrame page_outgoing_urls) ''csv'' of
                             Inl e \<Rightarrow> Inl e
                           | Inr st2 \<Rightarrow>
                               (let concepts =
                                      add_column
                                        (add_column
                                           (concat_and_filter_unique_values (pd E) url_concepts
                                              (get_all_italic_words soup soup_content))
                                           ''culture'' default_culture)
                                        ''semantic_field'' default_semantic_field
                                in case annotate E soup concepts of
                                     Inl e \<Rightarrow> Inl e
                                   | Inr concepts_culture \<Rightarrow>
                                       overwrite_file (pd E) st2 CONCEPT_FILE
                                         (DataFrame concepts_culture) ''csv'')))))"

text \<open>
  The state of the crawl: the active queue \<^verbatim>\<open>next_urls\<close>, whose members are texts or,
  when a table or a link had none, not a text; the visited addresses; the files.
\<close>

record crawl_state =
  next_urls :: "cell list"
  visited_urls :: "string list"
  files :: store

text \<open>
  The branch \<^verbatim>\<open>if response:\<close> of the loop body. \<^verbatim>\<open>current_url\<close> is
  \<^verbatim>\<open>next_urls[0]\<close>, the address just fetched. A page without a \<^verbatim>\<open>firstHeading\<close>
  fails at \<^verbatim>\<open>[0]\<close>; a page without a \<^verbatim>\<open>bodyContent\<close> fails at the first
  \<^verbatim>\<open>soup_content.find_all\<close>.
\<close>

definition process_page :: "env \<Rightarrow> soup \<Rightarrow> string \<Rightarrow> crawl_state \<Rightarrow> error + crawl_state" where
  "process_page E soup current_url s =
     (let soup_content = find_id soup (everywhere soup) ''bodyContent''
      in case filter (\<lambda>k. get_attr soup k ''id'' = Some ''firstHeading'') (everywhere soup) of
           [] \<Rightarrow> Inl IndexError
         | heading # _ \<Rightarrow>
             (let title = lower (get_text soup heading);
                  default_culture = fst (get_default_culture_and_semantic_field title);
                  default_semantic_field = snd (get_default_culture_and_semantic_field title);
                  queue = append_multilingual_url soup default_culture (next_urls s)
                            (visited_urls s)
              in case soup_content of
                   None \<Rightarrow> Inl AttributeError
                 | Some body \<Rightarrow>
                     (case persist_page E soup body current_url default_culture
                             default_semantic_field (visited_urls s) (files s) of
                        Inl e \<Rightarrow> Inl e
                      | Inr st \<Rightarrow> Inr (s\<lparr>next_urls := queue, files := st\<rparr>))))"

text \<open>
  The end of the loop body: \<^verbatim>\<open>next_urls = next_urls[1:]\<close> and, when nothing is
  left, the refill.
\<close>

definition advance :: "env \<Rightarrow> crawl_state \<Rightarrow> error + crawl_state" where
  "advance E s =
     (let s1 = s\<lparr>next_urls := drop 1 (next_urls s)\<rparr>
      in if next_urls s1 = []
         then (case select_next_urls_to_jump_to E (visited_urls s1) (files s1) of
                 Inl e \<Rightarrow> Inl e
               | Inr (urls, st) \<Rightarrow> Inr (s1\<lparr>next_urls := map Some urls, files := st\<rparr>))
         else Inr s1)"

text \<open>
  One iteration of the loop, the \<open>i\<close>-th. \<^verbatim>\<open>next_urls[0]\<close> raises on the empty
  queue; \<^verbatim>\<open>requests.get\<close> raises on what is not an address and when the request
  fails, before the address is marked visited.
\<close>

definition iteration :: "env \<Rightarrow> nat \<Rightarrow> crawl_state \<Rightarrow> error + crawl_state" where
  "iteration E i s =
     (case next_urls s of
        [] \<Rightarrow> Inl IndexError
      | None # _ \<Rightarrow> Inl RequestException
      | Some u # _ \<Rightarrow>
          (case web E i u of
             Raises \<Rightarrow> Inl RequestException
           | Response code soup \<Rightarrow>
               (let s1 = s\<lparr>visited_urls := visited_urls s @ [u]\<rparr>
                in case (if response_ok code then process_page E soup u s1 else Inr s1) of
                     Inl e \<Rightarrow> Inl e
                   | Inr s2 \<Rightarrow> advance E s2)))"

text \<open>\<open>n\<close> iterations of the loop, from the \<open>i\<close>-th on.\<close>

fun crawl :: "env \<Rightarrow> nat \<Rightarrow> nat \<Rightarrow> crawl_state \<Rightarrow> error + crawl_state" where
  "crawl E 0 i s = Inr s"
| "crawl E (Suc n) i s =
     (case iteration E i s of
        Inl e \<Rightarrow> Inl e
      | Inr s' \<Rightarrow> crawl E n (Suc i) s')"

text \<open>The statements before the loop, and the whole run.\<close>

definition initial_state :: "env \<Rightarrow> store \<Rightarrow> error + crawl_state" where
  "initial_state E st =
     (case read_csv (pd E) st START_URLS_FILE of
        Inl e \<Rightarrow> Inl e
      | Inr df \<Rightarrow>
          (case column df ''urls'' of
             None \<Rightarrow> Inl KeyError
           | Some urls \<Rightarrow>
               Inr \<lparr>next_urls = shuffle E (map url_of (take 200 urls)),
                    visited_urls = [],
                    files = to_csv st ALL_URLS_FILE \<lparr>columns = columns df, rws = []\<rparr>\<rparr>))"

definition run :: "env \<Rightarrow> store \<Rightarrow> error + crawl_state" where
  "run E st =
     (case initial_state E st of
        Inl e \<Rightarrow> Inl e
      | Inr s \<Rightarrow> crawl E ITERATIONS 0 s)"

section \<open>Example inputs\<close>

text \<open>
  Inputs at which the statements below are evaluated: a web that answers every request
  with status 404, one whose requests all raise, one that answers with status 200 and an
  empty body, and one that serves a short article; an environment over a given web and a
  given reader for the refill, with no person names and a labelling that leaves the frame
  as it is; and the three output files with their headers and no rows. \<open>no_types\<close> is
  a pandas that finds no number and no boolean in a file; the files of the examples hold
  missing values and fields that are certainly texts, on which every pandas agrees.
\<close>

definition no_types :: pandas where
  "no_types = \<lparr>infer = (\<lambda>ls i j. Text (ls ! i ! j)), typed_merge = (\<lambda>df1 df2. df1)\<rparr>"

definition status_404 :: "nat \<Rightarrow> string \<Rightarrow> response" where
  "status_404 i u = Response 404 []"

definition always_raises :: "nat \<Rightarrow> string \<Rightarrow> response" where
  "always_raises i u = Raises"

definition empty_body :: "nat \<Rightarrow> string \<Rightarrow> response" where
  "empty_body i u = Response 200 []"

definition keep_labels :: "soup \<Rightarrow> frame \<Rightarrow> error + frame" where
  "keep_labels soup df = Inr df"

definition demo_env ::
  "(nat \<Rightarrow> string \<Rightarrow> response) \<Rightarrow> (store \<Rightarrow> string \<Rightarrow> error + frame) \<Rightarrow> env" where
  "demo_env w rd = \<lparr>web = w, person_db = [], pd = no_types, read_csv_file = rd,
     annotate = keep_labels, shuffle = rev\<rparr>"

definition oktoberfest_page :: soup where
  "oktoberfest_page =
     [TagItem ''html'' [] 11,
      TagItem ''h1'' [(''id'', ''firstHeading'')] 1,
      TextItem ''Oktoberfest in Germany'',
      TagItem ''div'' [(''id'', ''bodyContent'')] 5,
      TagItem ''p'' [] 2,
      TagItem ''a'' [(''href'', ''/wiki/Beer''), (''title'', ''Beer'')] 1,
      TextItem ''beer'',
      TagItem ''i'' [] 1,
      TextItem ''Wiesn'',
      TagItem ''li'' [(''class'', ''interlanguage-link interwiki-de'')] 2,
      TagItem ''a''
        [(''lang'', ''de''), (''href'', ''https://de.wikipedia.org/wiki/Oktoberfest'')] 1,
      TextItem ''Deutsch'']"

definition serves_oktoberfest :: "nat \<Rightarrow> string \<Rightarrow> response" where
  "serves_oktoberfest i u = Response 200 oktoberfest_page"

definition empty_tables :: store where
  "empty_tables =
     [IMAGES_FILE \<mapsto>
        \<lparr>header = [''img_source'', ''img_captions'', ''culture'', ''semantic_field''],
           lines = []\<rparr>,
      ALL_URLS_FILE \<mapsto> \<lparr>header = [''urls''], lines = []\<rparr>,
      CONCEPT_FILE \<mapsto>
        \<lparr>header = [''concepts'', ''culture'', ''semantic_field''], lines = []\<rparr>]"

section \<open>Facts about frames and files\<close>




































lemmas frame_eval = to_csv_def pd_concat_def drop_duplicates_def reindex_def cell_at_def
  csv_plain_def csv_text_def na_values_def has_typed_def Let_def

lemma csv_value_plain: "plain_field s \<Longrightarrow> csv_value P ls i j s = csv_plain s"
  by (auto simp: csv_value_def plain_field_def csv_plain_def)

text \<open>The fields of the example files are missing values or certainly texts.\<close>

lemma example_fields:
  "plain_field ''''"
  "plain_field ''sakura''"
  "plain_field ''korean''"
  "plain_field ''german''"
  "plain_field ''chinese''"
  "plain_field ''food''"
  "plain_field ''fruit''"
  "plain_field ''/wiki/Oktoberfest''"
  "plain_field ''/wiki/Beer''"
  "plain_field ''https://de.wikipedia.org/wiki/Bier''"
  by code_simp+

lemmas read_eval = overwrite_file_def read_csv_def concat_and_filter_unique_values_def
  csv_value_plain example_fields

section \<open>Facts about the extractors\<close>

lemma person_loop_error: "person_loop ws db = Inl e \<Longrightarrow> e = AttributeError"
  by (induction db) (auto split: option.splits if_splits)

lemma keeps_caption_error: "keeps_caption db c = Inl e \<Longrightarrow> e = AttributeError"
  by (auto simp: keeps_caption_def contains_person_name_def split: if_splits sum.splits
      dest: person_loop_error)

lemma figure_scan_error: "figure_scan db d figs acc = Inl e \<Longrightarrow> e = AttributeError"
proof (induction db d figs acc rule: figure_scan.induct)
  case (1 db d acc)
  then show ?case by simp
next
  case (2 db d fig figs caps srcs)
  then show ?case
    by (auto simp: Let_def split: option.splits sum.splits bool.splits if_splits
        dest: keeps_caption_error)
qed

lemma figure_scan_no_caption:
  assumes "fig \<in> set figs" "find_tag d (inside d fig) ''img'' \<noteq> None"
    "find_tag d (inside d fig) ''figcaption'' = None"
  shows "figure_scan db d figs acc = Inl AttributeError"
  using assms
proof (induction db d figs acc rule: figure_scan.induct)
  case (1 db d acc)
  then show ?case by simp
next
  case (2 db d f figs caps srcs)
  show ?case
  proof (cases "f = fig")
    case True
    then show ?thesis using "2.prems" by (auto split: option.splits)
  next
    case False
    then have "fig \<in> set figs" using "2.prems" by simp
    then show ?thesis using "2.IH" "2.prems"(2,3)
      by (auto simp: Let_def split: option.splits sum.splits bool.splits
          dest: keeps_caption_error)
  qed
qed

lemma alt_scan_error: "alt_scan db d imgs acc = Inl e \<Longrightarrow> e = AttributeError"
proof (induction db d imgs acc rule: alt_scan.induct)
  case (1 db d acc)
  then show ?case by simp
next
  case (2 db d img imgs caps srcs)
  then show ?case
    by (auto simp: Let_def split: option.splits sum.splits bool.splits if_splits
        dest: keeps_caption_error)
qed

lemma alt_scan_no_src:
  assumes "img \<in> set imgs" "get_attr d img ''src'' = None"
  shows "alt_scan db d imgs acc = Inl AttributeError"
  using assms
proof (induction db d imgs acc rule: alt_scan.induct)
  case (1 db d acc)
  then show ?case by simp
next
  case (2 db d i imgs caps srcs)
  show ?case
  proof (cases "i = img")
    case True
    then show ?thesis using "2.prems" by simp
  next
    case False
    then have "img \<in> set imgs" using "2.prems" by simp
    then show ?thesis using "2.IH" "2.prems"(2)
      by (auto simp: Let_def split: option.splits sum.splits bool.splits
          dest: keeps_caption_error)
  qed
qed

lemmas doc_eval = inside_def everywhere_def get_attr_def find_all_def find_tag_def find_id_def
  find_next_def get_text_def

section \<open>Facts about the crawl\<close>

lemma append_multilingual_url_cases:
  "append_multilingual_url soup c q v = q \<or>
   (\<exists>l. append_multilingual_url soup c q v = q @ [l] \<and> l \<notin> Some ` set v)"
  by (auto simp: append_multilingual_url_def Let_def split: option.splits)

lemma process_page_queue:
  assumes "process_page E soup u s = Inr s'"
  shows "visited_urls s' = visited_urls s \<and>
    (next_urls s' = next_urls s \<or>
     (\<exists>l. next_urls s' = next_urls s @ [l] \<and> l \<notin> Some ` set (visited_urls s)))"
proof -
  from assms obtain c st where
    "s' = s\<lparr>next_urls := append_multilingual_url soup c (next_urls s) (visited_urls s),
             files := st\<rparr>"
    by (auto simp: process_page_def Let_def split: list.splits option.splits sum.splits)
  then show ?thesis
    using append_multilingual_url_cases[of soup c "next_urls s" "visited_urls s"] by auto
qed

lemma select_next_unvisited:
  assumes "visited \<noteq> []" "select_next_urls_to_jump_to E visited st = Inr (urls, st')"
  shows "set urls \<inter> set visited = {}"
  using assms
  by (auto simp: select_next_urls_to_jump_to_def Let_def split: sum.splits option.splits)

lemma advance_queue:
  assumes "advance E s = Inr s'" "visited_urls s \<noteq> []"
  shows "visited_urls s' = visited_urls s \<and>
    (\<forall>x\<in>set (next_urls s'). x \<in> set (drop 1 (next_urls s)) \<or>
        x \<notin> Some ` set (visited_urls s))"
proof (cases "drop 1 (next_urls s) = []")
  case True
  with assms(1) obtain urls st where
    r: "select_next_urls_to_jump_to E (visited_urls s) (files s) = Inr (urls, st)"
    and s': "s' = s\<lparr>next_urls := map Some urls, files := st\<rparr>"
    by (auto simp: advance_def Let_def split: sum.splits)
  from select_next_unvisited[OF assms(2) r] show ?thesis by (auto simp: s')
next
  case False
  with assms(1) have "s' = s\<lparr>next_urls := drop 1 (next_urls s)\<rparr>"
    by (auto simp: advance_def Let_def)
  then show ?thesis by simp
qed

lemma iteration_queue:
  assumes "iteration E i s = Inr s'"
  shows "(\<exists>u rest. next_urls s = Some u # rest \<and> visited_urls s' = visited_urls s @ [u]) \<and>
    (\<forall>x\<in>set (next_urls s'). x \<in> set (tl (next_urls s)) \<or>
        x \<notin> Some ` set (visited_urls s'))"
proof -
  from assms obtain u rest code soup where q: "next_urls s = Some u # rest"
    and w: "web E i u = Response code soup"
    by (auto simp: iteration_def split: list.splits option.splits response.splits)
  let ?s1 = "s\<lparr>visited_urls := visited_urls s @ [u]\<rparr>"
  from assms q w obtain s2 where
    p: "(if response_ok code then process_page E soup u ?s1 else Inr ?s1) = Inr s2"
    and a: "advance E s2 = Inr s'"
    by (auto simp: iteration_def Let_def split: sum.splits)
  have s2: "visited_urls s2 = visited_urls s @ [u] \<and>
    (next_urls s2 = next_urls s \<or>
     (\<exists>l. next_urls s2 = next_urls s @ [l] \<and> l \<notin> Some ` set (visited_urls s @ [u])))"
  proof (cases "response_ok code")
    case True
    with p have "process_page E soup u ?s1 = Inr s2" by simp
    from process_page_queue[OF this] show ?thesis by simp
  next
    case False
    with p show ?thesis by auto
  qed
  then have ne: "visited_urls s2 \<noteq> []" by simp
  from advance_queue[OF a ne] have v: "visited_urls s' = visited_urls s @ [u]"
    and x: "\<forall>x\<in>set (next_urls s'). x \<in> set (drop 1 (next_urls s2)) \<or>
              x \<notin> Some ` set (visited_urls s @ [u])"
    using s2 by auto
  have "\<forall>x\<in>set (next_urls s'). x \<in> set rest \<or> x \<notin> Some ` set (visited_urls s @ [u])"
  proof
    fix x assume "x \<in> set (next_urls s')"
    with x have "x \<in> set (drop 1 (next_urls s2)) \<or> x \<notin> Some ` set (visited_urls s @ [u])"
      by blast
    then show "x \<in> set rest \<or> x \<notin> Some ` set (visited_urls s @ [u])"
      using s2 q by (auto simp: drop_Suc_Cons)
  qed
  then show ?thesis using q v by simp
qed

lemma crawl_queue:
  "crawl E n i s = Inr s' \<Longrightarrow>
   set (visited_urls s) \<subseteq> set (visited_urls s') \<and>
   (\<forall>x\<in>set (next_urls s'). x \<in> set (next_urls s) \<or> x \<notin> Some ` set (visited_urls s))"
proof (induction n arbitrary: i s)
  case 0
  then show ?case by simp
next
  case (Suc n)
  from Suc.prems obtain s1 where it: "iteration E i s = Inr s1"
    and cr: "crawl E n (Suc i) s1 = Inr s'"
    by (auto split: sum.splits)
  from iteration_queue[OF it] obtain u rest where q: "next_urls s = Some u # rest"
    and v: "visited_urls s1 = visited_urls s @ [u]"
    and x1: "\<forall>x\<in>set (next_urls s1). x \<in> set (tl (next_urls s)) \<or>
               x \<notin> Some ` set (visited_urls s1)"
    by blast
  from Suc.IH[OF cr] have v2: "set (visited_urls s1) \<subseteq> set (visited_urls s')"
    and x2: "\<forall>x\<in>set (next_urls s'). x \<in> set (next_urls s1) \<or>
               x \<notin> Some ` set (visited_urls s1)"
    by auto
  have "\<forall>x\<in>set (next_urls s'). x \<in> set (next_urls s) \<or> x \<notin> Some ` set (visited_urls s)"
  proof
    fix x assume "x \<in> set (next_urls s')"
    with x2 x1 have "x \<in> set (tl (next_urls s)) \<or> x \<notin> Some ` set (visited_urls s1)"
      by blast
    then show "x \<in> set (next_urls s) \<or> x \<notin> Some ` set (visited_urls s)"
      using q v by auto
  qed
  then show ?case using v v2 by auto
qed

lemmas file_names = START_URLS_FILE_def ALL_URLS_FILE_def CONCEPT_FILE_def IMAGES_FILE_def

lemmas crawl_eval = iteration_def advance_def select_next_urls_to_jump_to_def column_def
  response_ok_def str_of_def demo_env_def status_404_def always_raises_def empty_body_def
  process_page_def missing_attribute_def

text \<open>The example article, step by step.\<close>

lemma oktoberfest_title:
  "get_default_culture_and_semantic_field ''oktoberfest in germany'' = (''german'', '''')"
  by code_simp

lemma oktoberfest_interlanguage: "select_interlanguage oktoberfest_page = [10]"
  by code_simp

lemma oktoberfest_append:
  "append_multilingual_url oktoberfest_page ''german'' q v =
   (if Some ''https://de.wikipedia.org/wiki/Oktoberfest'' \<notin> Some ` set v
    then q @ [Some ''https://de.wikipedia.org/wiki/Oktoberfest''] else q)"
  by (simp add: append_multilingual_url_def oktoberfest_interlanguage culture_language_def)
     (simp add: oktoberfest_page_def get_attr_def)

lemma oktoberfest_images:
  "get_captioned_images [] oktoberfest_page 3 =
   Inr \<lparr>columns = [''img_source'', ''img_captions''], rws = []\<rparr>"
  by code_simp

lemma oktoberfest_links:
  "extract_link_concepts_and_urls oktoberfest_page 3
     ''https://en.wikipedia.org/wiki/Oktoberfest'' =
   Inr (\<lparr>columns = [''urls''], rws = [[Text ''/wiki/Beer'']]\<rparr>,
        \<lparr>columns = [''concepts''], rws = [[Text ''beer'']]\<rparr>)"
  by code_simp

lemma oktoberfest_italic:
  "get_all_italic_words oktoberfest_page 3 =
   \<lparr>columns = [''concepts''], rws = [[Text ''wiesn'']]\<rparr>"
  by code_simp

lemma oktoberfest_heading:
  "filter (\<lambda>k. get_attr oktoberfest_page k ''id'' = Some ''firstHeading'')
     (everywhere oktoberfest_page) = [1]"
  by code_simp

lemma oktoberfest_body:
  "find_id oktoberfest_page (everywhere oktoberfest_page) ''bodyContent'' = Some 3"
  by code_simp

lemma oktoberfest_heading_text:
  "lower (get_text oktoberfest_page (Suc 0)) = ''oktoberfest in germany''"
proof -
  have "lower (get_text oktoberfest_page 1) = ''oktoberfest in germany''" by code_simp
  then show ?thesis by simp
qed

lemma oktoberfest_persist:
  "persist_page (demo_env serves_oktoberfest (read_csv no_types)) oktoberfest_page 3
     ''https://en.wikipedia.org/wiki/Oktoberfest'' ''german'' ''''
     [''https://en.wikipedia.org/wiki/Oktoberfest''] empty_tables =
   Inr [IMAGES_FILE \<mapsto>
          \<lparr>header = [''img_source'', ''img_captions'', ''culture'', ''semantic_field''],
             lines = []\<rparr>,
        ALL_URLS_FILE \<mapsto> \<lparr>header = [''urls''], lines = [[''/wiki/Beer'']]\<rparr>,
        CONCEPT_FILE \<mapsto>
          \<lparr>header = [''concepts'', ''culture'', ''semantic_field''],
             lines = [[''beer'', ''german'', ''''], [''wiesn'', ''german'', '''']]\<rparr>]"
  by (simp add: persist_page_def demo_env_def oktoberfest_images oktoberfest_links
      oktoberfest_italic add_column_def keep_labels_def empty_tables_def file_names
      read_eval frame_eval)

lemma oktoberfest_iteration:
  "iteration (demo_env serves_oktoberfest (read_csv no_types)) 0
     \<lparr>next_urls = [Some ''https://en.wikipedia.org/wiki/Oktoberfest''],
        visited_urls = [], files = empty_tables\<rparr>
   = Inr \<lparr>next_urls = [Some ''https://de.wikipedia.org/wiki/Oktoberfest''],
      visited_urls = [''https://en.wikipedia.org/wiki/Oktoberfest''],
      files =
        [IMAGES_FILE \<mapsto>
           \<lparr>header = [''img_source'', ''img_captions'', ''culture'', ''semantic_field''],
              lines = []\<rparr>,
         ALL_URLS_FILE \<mapsto> \<lparr>header = [''urls''], lines = [[''/wiki/Beer'']]\<rparr>,
         CONCEPT_FILE \<mapsto>
           \<lparr>header = [''concepts'', ''culture'', ''semantic_field''],
              lines = [[''beer'', ''german'', ''''], [''wiesn'', ''german'', '''']]\<rparr>]\<rparr>"
  by (simp add: iteration_def demo_env_def serves_oktoberfest_def response_ok_def
      process_page_def oktoberfest_heading oktoberfest_body oktoberfest_heading_text
      oktoberfest_title oktoberfest_append advance_def Let_def
      oktoberfest_persist[unfolded demo_env_def])

section \<open>Claims about the store\<close>

subsection \<open>C1: merging the same rows twice\<close>




subsection \<open>C3: what counts as a duplicate\<close>




subsection \<open>C5: the first write of a table\<close>

text \<open>
  C5. The claim: \<^verbatim>\<open>overwrite_file\<close> on a path that holds no file succeeds and writes
  the new rows. The code reads the path first, and the read raises: with no file at
  \<^verbatim>\<open>output/images.csv\<close> the call ends in \<^verbatim>\<open>FileNotFoundError\<close> and nothing is
  written.
\<close>

theorem overwrite_file_absent_file_raises:
  "overwrite_file P Map.empty ''output/images.csv''
     (DataFrame \<lparr>columns = [''img_source'', ''img_captions'', ''culture'', ''semantic_field''],
                 rws = [[Text ''//upload.wikimedia.org/a.jpg'', Text ''a tent in 1910'',
                         Text ''german'', Text ''celebration'']]\<rparr>) ''csv''
   = Inl FileNotFoundError"
  by (simp add: overwrite_file_def read_csv_def)

section \<open>Claims about the name tests\<close>

lemma person_loop_texts:
  "person_loop ws (map Some db) =
     Inr (\<exists>e\<in>set db. \<forall>w\<in>set (split e). w \<in> set ws)"
  by (induction db) (auto simp: list_all_iff)

lemma subname_loop_iff: "subname_loop ws ns = (\<exists>w\<in>set ns. w \<in> set ws)"
  by (induction ns) auto

lemma filtering_person_loop_texts:
  "filtering_person_loop ws (map Some db) =
     Inr (\<exists>e\<in>set db. \<exists>w\<in>set (split e). w \<in> set ws)"
  by (induction db) (auto simp: subname_loop_iff)

lemmas text_eval = split_def isspace_def contains_person_name_def
  filtering_contains_person_name_def

subsection \<open>C4: matching names word by word\<close>

text \<open>
  C4. The claim: the person-name test is true iff every word of the reference entry is a
  whole word of the input; with the entry leonardo da vinci it is true of
  "the painting by leonardo da vinci" and false of "leonardo's cafe". As amended: for a
  reference set of texts, the test of the crawl (\<^verbatim>\<open>concept_extraction.py\<close>) is true
  iff every word of some entry is a word of the input, and the test of the refinement
  stage (\<^verbatim>\<open>concept_filtering.py\<close>) is true iff some word of some entry is a word of
  the input. Both give the two answers of the example.
\<close>

theorem contains_person_name_words:
  "contains_person_name (map Some db) (Some text) =
     Inr (\<exists>e\<in>set db. \<forall>w\<in>set (split e). w \<in> set (split text)) \<and>
   filtering_contains_person_name (map Some db) (Some text) =
     Inr (\<exists>e\<in>set db. \<exists>w\<in>set (split e). w \<in> set (split text)) \<and>
   contains_person_name [Some ''leonardo da vinci'']
     (Some ''the painting by leonardo da vinci'') = Inr True \<and>
   contains_person_name [Some ''leonardo da vinci''] (Some ''leonardo's cafe'') = Inr False \<and>
   filtering_contains_person_name [Some ''leonardo da vinci'']
     (Some ''the painting by leonardo da vinci'') = Inr True \<and>
   filtering_contains_person_name [Some ''leonardo da vinci'']
     (Some ''leonardo's cafe'') = Inr False"
  by (simp add: contains_person_name_def filtering_contains_person_name_def
      person_loop_texts filtering_person_loop_texts)
     (simp add: split_def isspace_def)

text \<open>The theorem at a reference set of two names and a caption naming the second.\<close>

theorem contains_person_name_words_witness:
  "contains_person_name [Some ''ada lovelace'', Some ''leonardo da vinci'']
     (Some ''vinci da leonardo'') = Inr True"
  using contains_person_name_words[of "[''ada lovelace'', ''leonardo da vinci'']" "''vinci da leonardo''"]
  by (simp add: split_def isspace_def)

text \<open>
  The claim as stated fails for the test of the refinement stage: one word of the entry in
  the input is enough.
\<close>

theorem filtering_contains_person_name_one_word:
  "filtering_contains_person_name [Some ''leonardo da vinci''] (Some ''cafe da noite'') = Inr True \<and>
   contains_person_name [Some ''leonardo da vinci''] (Some ''cafe da noite'') = Inr False"
  by (simp add: text_eval)

section \<open>Claims about the extractors\<close>

subsection \<open>C9: links and their titles\<close>

text \<open>
  C9. The claim: on a page of a supported language, the href of every internal content link
  before the cutoff is returned whatever the title of the link, a missing title included.
  The code calls \<^verbatim>\<open>concept_title.isalpha()\<close> on every such link before it adds the
  href: on an English page whose body holds one link to \<^verbatim>\<open>/wiki/Oktoberfest\<close>
  without a title, \<^verbatim>\<open>extract_link_concepts_and_urls\<close> raises
  \<^verbatim>\<open>AttributeError\<close> and returns no table. With a title that is not alphabetic the
  href is returned and no concept is.
\<close>

theorem extract_link_without_title_raises:
  "extract_link_concepts_and_urls
     [TagItem ''div'' [(''id'', ''bodyContent'')] 2,
      TagItem ''a'' [(''href'', ''/wiki/Oktoberfest'')] 1, TextItem ''Oktoberfest'']
     0 ''https://en.wikipedia.org/wiki/Beer'' = Inl AttributeError \<and>
   extract_link_concepts_and_urls
     [TagItem ''div'' [(''id'', ''bodyContent'')] 2,
      TagItem ''a'' [(''href'', ''/wiki/Beer_garden''), (''title'', ''Beer garden'')] 1,
      TextItem ''beer garden'']
     0 ''https://en.wikipedia.org/wiki/Beer'' =
     Inr (\<lparr>columns = [''urls''], rws = [[Text ''/wiki/Beer_garden'']]\<rparr>,
          \<lparr>columns = [''concepts''], rws = []\<rparr>)"
  by (simp add: doc_eval upt_rec extract_link_concepts_and_urls_def language_code_def
     language_prefixes_def startswith_def isalpha_def isalpha_char_def set_add_def)

subsection \<open>C10: pages on which the image extractor raises\<close>

text \<open>
  C10. \<^verbatim>\<open>get_captioned_images\<close> returns a table only for some pages: when some
  figure of the body holds an image and no caption element, or some image of the body has
  no \<^verbatim>\<open>src\<close> attribute, the call raises \<^verbatim>\<open>AttributeError\<close>, whatever the
  reference set of names.
\<close>

theorem get_captioned_images_raises:
  assumes "(\<exists>fig\<in>set (find_all d (inside d soup_content) ''figure'').
              find_tag d (inside d fig) ''img'' \<noteq> None \<and>
              find_tag d (inside d fig) ''figcaption'' = None) \<or>
           (\<exists>img\<in>set (find_all d (inside d soup_content) ''img'').
              get_attr d img ''src'' = None)"
  shows "get_captioned_images PERSON_DB d soup_content = Inl AttributeError"
proof (cases "figure_scan PERSON_DB d (find_all d (inside d soup_content) ''figure'') ([], [])")
  case (Inl e)
  then show ?thesis using figure_scan_error[OF Inl] by (simp add: get_captioned_images_def)
next
  case (Inr acc)
  with assms obtain img where "img \<in> set (find_all d (inside d soup_content) ''img'')"
    "get_attr d img ''src'' = None"
    using figure_scan_no_caption by fastforce
  then have "alt_scan PERSON_DB d (find_all d (inside d soup_content) ''img'') acc = Inl AttributeError"
    by (rule alt_scan_no_src)
  then show ?thesis using Inr by (simp add: get_captioned_images_def)
qed

text \<open>The theorem at a body whose only figure holds an image and no caption.\<close>

theorem get_captioned_images_raises_witness:
  "get_captioned_images []
     [TagItem ''div'' [(''id'', ''bodyContent'')] 2, TagItem ''figure'' [] 1,
      TagItem ''img'' [(''src'', ''//upload.wikimedia.org/tent.jpg'')] 0]
     0 = Inl AttributeError"
  by (rule get_captioned_images_raises) (simp add: doc_eval upt_rec)

section \<open>Claims about the frontier\<close>

subsection \<open>C2: visited addresses and the active queue\<close>

text \<open>
  C2. The claim: at every step of the loop the visited addresses and the active queue are
  disjoint, and a visited address is never added to the active queue. As amended: a
  visited address is never added to the active queue. After an iteration, every member
  of the active queue either was in the queue behind the head before the iteration, or is
  not among the visited addresses; so the interlanguage link and the refilled addresses
  are unvisited when they are added. The two collections need not be disjoint.
\<close>

theorem added_urls_are_unvisited:
  assumes "iteration E i s = Inr s'"
  shows "\<forall>x\<in>set (next_urls s'). x \<in> set (tl (next_urls s)) \<or>
           x \<notin> Some ` set (visited_urls s')"
  using iteration_queue[OF assms] by blast

text \<open>
  The theorem at the example article: the iteration appends the German interlanguage link,
  which is not visited.
\<close>

theorem added_urls_are_unvisited_witness:
  "\<exists>s'. iteration (demo_env serves_oktoberfest (read_csv no_types)) 0
           \<lparr>next_urls = [Some ''https://en.wikipedia.org/wiki/Oktoberfest''],
              visited_urls = [], files = empty_tables\<rparr> = Inr s' \<and>
         next_urls s' = [Some ''https://de.wikipedia.org/wiki/Oktoberfest''] \<and>
         visited_urls s' = [''https://en.wikipedia.org/wiki/Oktoberfest''] \<and>
         Some ''https://de.wikipedia.org/wiki/Oktoberfest'' \<notin> Some ` set (visited_urls s')"
proof -
  let ?s = "\<lparr>next_urls = [Some ''https://en.wikipedia.org/wiki/Oktoberfest''],
              visited_urls = [], files = empty_tables\<rparr>"
  obtain s' where it: "iteration (demo_env serves_oktoberfest (read_csv no_types)) 0 ?s = Inr s'"
    and q: "next_urls s' = [Some ''https://de.wikipedia.org/wiki/Oktoberfest'']"
    and v: "visited_urls s' = [''https://en.wikipedia.org/wiki/Oktoberfest'']"
    using oktoberfest_iteration by simp
  from added_urls_are_unvisited[OF it] q
  have "Some ''https://de.wikipedia.org/wiki/Oktoberfest'' \<in> set (tl (next_urls ?s)) \<or>
        Some ''https://de.wikipedia.org/wiki/Oktoberfest'' \<notin> Some ` set (visited_urls s')"
    by simp
  then have "Some ''https://de.wikipedia.org/wiki/Oktoberfest'' \<notin> Some ` set (visited_urls s')"
    by simp
  with it q v show ?thesis by blast
qed

text \<open>
  The claim as stated fails: with an address twice among the seeds and a fetch answered by
  status 404, the address is visited and still in the active queue when the first
  iteration ends. (Within every iteration the head of the queue is visited before it is
  taken off the queue.)
\<close>

theorem visited_url_still_queued:
  "iteration (demo_env status_404 (read_csv no_types)) 0
     \<lparr>next_urls = [Some ''https://en.wikipedia.org/wiki/Oktoberfest'',
                   Some ''https://en.wikipedia.org/wiki/Oktoberfest''],
        visited_urls = [], files = Map.empty\<rparr>
   = Inr \<lparr>next_urls = [Some ''https://en.wikipedia.org/wiki/Oktoberfest''],
          visited_urls = [''https://en.wikipedia.org/wiki/Oktoberfest''],
          files = Map.empty\<rparr>"
  by (simp add: crawl_eval)

subsection \<open>C6: a fetch that fails\<close>

text \<open>
  C6. The claim: when the fetch of an iteration fails (a network error or an error status)
  or returns an empty body, extraction and persistence are skipped, the address is marked
  visited, and it is never retried. As amended: when the fetch is answered with an error
  status (400 to 599), the iteration does nothing but mark the address visited, take it
  off the queue and refill the queue if it is empty; the address stays visited, and it is
  in the active queue later in the run only if it was in the queue behind the head when
  the fetch was made.
\<close>

theorem error_status_skips_page:
  assumes "next_urls s = Some u # rest" and "web E i u = Response code page"
    and "400 \<le> code" and "code < 600"
  shows "iteration E i s = advance E (s\<lparr>visited_urls := visited_urls s @ [u]\<rparr>) \<and>
    (\<forall>n s1 s2. iteration E i s = Inr s1 \<longrightarrow> crawl E n (Suc i) s1 = Inr s2 \<longrightarrow>
       u \<in> set (visited_urls s2) \<and> (Some u \<in> set (next_urls s2) \<longrightarrow> Some u \<in> set rest))"
proof -
  have eq: "iteration E i s = advance E (s\<lparr>visited_urls := visited_urls s @ [u]\<rparr>)"
    using assms by (simp add: iteration_def response_ok_def Let_def split: sum.splits)
  have "u \<in> set (visited_urls s2) \<and> (Some u \<in> set (next_urls s2) \<longrightarrow> Some u \<in> set rest)"
    if it: "iteration E i s = Inr s1" and cr: "crawl E n (Suc i) s1 = Inr s2" for n s1 s2
  proof -
    from iteration_queue[OF it] assms(1) have v: "visited_urls s1 = visited_urls s @ [u]"
      and x1: "\<forall>x\<in>set (next_urls s1). x \<in> set rest \<or> x \<notin> Some ` set (visited_urls s1)"
      by auto
    from crawl_queue[OF cr] have v2: "set (visited_urls s1) \<subseteq> set (visited_urls s2)"
      and x2: "\<forall>x\<in>set (next_urls s2). x \<in> set (next_urls s1) \<or>
                 x \<notin> Some ` set (visited_urls s1)"
      by auto
    have u1: "u \<in> set (visited_urls s1)" using v by simp
    then have "u \<in> set (visited_urls s2)" using v2 by blast
    moreover have "Some u \<in> set rest" if "Some u \<in> set (next_urls s2)"
    proof -
      from x2 that u1 have "Some u \<in> set (next_urls s1)" by blast
      with x1 u1 show ?thesis by blast
    qed
    ultimately show ?thesis by blast
  qed
  with eq show ?thesis by blast
qed

text \<open>
  The theorem at a queue of two addresses, both answered with status 404, and an overflow
  file that lists the first address again: the next iteration refills the queue and
  leaves that address out.
\<close>

theorem error_status_skips_page_witness:
  "iteration (demo_env status_404 (read_csv no_types)) 0
     \<lparr>next_urls = [Some ''https://en.wikipedia.org//wiki/Oktoberfest'',
                   Some ''https://en.wikipedia.org//wiki/Wine''],
        visited_urls = [],
        files = [ALL_URLS_FILE \<mapsto>
                   \<lparr>header = [''urls''],
                      lines = [[''/wiki/Oktoberfest''], [''/wiki/Beer'']]\<rparr>]\<rparr>
   = Inr \<lparr>next_urls = [Some ''https://en.wikipedia.org//wiki/Wine''],
          visited_urls = [''https://en.wikipedia.org//wiki/Oktoberfest''],
          files = [ALL_URLS_FILE \<mapsto>
                     \<lparr>header = [''urls''],
                        lines = [[''/wiki/Oktoberfest''], [''/wiki/Beer'']]\<rparr>]\<rparr> \<and>
   crawl (demo_env status_404 (read_csv no_types)) (Suc 0) (Suc 0)
     \<lparr>next_urls = [Some ''https://en.wikipedia.org//wiki/Wine''],
        visited_urls = [''https://en.wikipedia.org//wiki/Oktoberfest''],
        files = [ALL_URLS_FILE \<mapsto>
                   \<lparr>header = [''urls''],
                      lines = [[''/wiki/Oktoberfest''], [''/wiki/Beer'']]\<rparr>]\<rparr>
   = Inr \<lparr>next_urls = [Some ''https://en.wikipedia.org//wiki/Beer''],
          visited_urls = [''https://en.wikipedia.org//wiki/Oktoberfest'',
                          ''https://en.wikipedia.org//wiki/Wine''],
          files = [ALL_URLS_FILE \<mapsto> \<lparr>header = [''urls''], lines = []\<rparr>]\<rparr> \<and>
   Some ''https://en.wikipedia.org//wiki/Oktoberfest''
     \<notin> set [Some ''https://en.wikipedia.org//wiki/Beer'']"
proof -
  let ?E = "demo_env status_404 (read_csv no_types)"
  let ?u = "''https://en.wikipedia.org//wiki/Oktoberfest''"
  let ?v = "''https://en.wikipedia.org//wiki/Wine''"
  let ?fs = "[ALL_URLS_FILE \<mapsto>
                \<lparr>header = [''urls''], lines = [[''/wiki/Oktoberfest''], [''/wiki/Beer'']]\<rparr>]"
  let ?s0 = "\<lparr>next_urls = [Some ?u, Some ?v], visited_urls = [], files = ?fs\<rparr>"
  let ?s1 = "\<lparr>next_urls = [Some ?v], visited_urls = [?u], files = ?fs\<rparr>"
  let ?s2 = "\<lparr>next_urls = [Some ''https://en.wikipedia.org//wiki/Beer''],
               visited_urls = [?u, ?v],
               files = [ALL_URLS_FILE \<mapsto> \<lparr>header = [''urls''], lines = []\<rparr>]\<rparr>"
  have it: "iteration ?E 0 ?s0 = Inr ?s1" by (simp add: crawl_eval)
  have cr: "crawl ?E (Suc 0) (Suc 0) ?s1 = Inr ?s2" by (simp add: crawl_eval read_eval frame_eval)
  have q: "next_urls ?s0 = Some ?u # [Some ?v]" by simp
  have w: "web ?E 0 ?u = Response 404 []" by (simp add: demo_env_def status_404_def)
  from error_status_skips_page[of ?s0 ?u "[Some ?v]" ?E 0 404 "[]"] q w
  have "\<forall>n s1 s2. iteration ?E 0 ?s0 = Inr s1 \<longrightarrow> crawl ?E n (Suc 0) s1 = Inr s2 \<longrightarrow>
       ?u \<in> set (visited_urls s2) \<and> (Some ?u \<in> set (next_urls s2) \<longrightarrow> Some ?u \<in> set [Some ?v])"
    by simp
  with it cr have "Some ?u \<in> set (next_urls ?s2) \<longrightarrow> Some ?u \<in> set [Some ?v]" by blast
  then have "Some ?u \<notin> set [Some ''https://en.wikipedia.org//wiki/Beer'']" by simp
  with it cr show ?thesis by simp
qed

text \<open>
  The claim as stated fails. A request that raises ends the run, with the address not
  marked visited. A response with status 200 and an empty body is processed like any
  page, and the iteration raises at the look-up of the heading. And an address that the
  queue holds twice is fetched twice, though the first fetch was answered with status 404.
\<close>

theorem failed_fetch_raises_or_repeats:
  "iteration (demo_env always_raises (read_csv no_types)) 0
     \<lparr>next_urls = [Some ''https://en.wikipedia.org/wiki/Oktoberfest''],
        visited_urls = [], files = Map.empty\<rparr> = Inl RequestException \<and>
   iteration (demo_env empty_body (read_csv no_types)) 0
     \<lparr>next_urls = [Some ''https://en.wikipedia.org/wiki/Oktoberfest''],
        visited_urls = [], files = Map.empty\<rparr> = Inl IndexError \<and>
   crawl (demo_env status_404 (read_csv no_types)) 2 0
     \<lparr>next_urls = [Some ''https://en.wikipedia.org/wiki/Oktoberfest'',
                   Some ''https://en.wikipedia.org/wiki/Oktoberfest'',
                   Some ''https://en.wikipedia.org/wiki/Beer''],
        visited_urls = [], files = Map.empty\<rparr>
   = Inr \<lparr>next_urls = [Some ''https://en.wikipedia.org/wiki/Beer''],
          visited_urls = [''https://en.wikipedia.org/wiki/Oktoberfest'',
                          ''https://en.wikipedia.org/wiki/Oktoberfest''],
          files = Map.empty\<rparr>"
  by (simp add: crawl_eval doc_eval numeral_2_eq_2)

subsection \<open>C7: the frontier runs dry\<close>

text \<open>
  C7. The claim: when the active queue is empty and the refill yields no address, the
  crawl ends normally. The code has no such end. With one seed, answered with status 404,
  and an empty overflow file: if the refill reads the file with \<^verbatim>\<open>read_csv\<close>, it
  returns no address and the next iteration raises \<^verbatim>\<open>IndexError\<close> at
  \<^verbatim>\<open>next_urls[0]\<close>, whatever budget of two or more iterations; with pandas as it
  is, the refill itself raises \<^verbatim>\<open>AttributeError\<close> in the first iteration.
\<close>

theorem exhausted_frontier_raises:
  "crawl (demo_env status_404 (read_csv no_types)) (Suc (Suc n)) 0
     \<lparr>next_urls = [Some ''https://en.wikipedia.org/wiki/Oktoberfest''],
        visited_urls = [],
        files = [ALL_URLS_FILE \<mapsto> \<lparr>header = [''urls''], lines = []\<rparr>]\<rparr>
   = Inl IndexError \<and>
   crawl (demo_env status_404 missing_attribute) (Suc n) 0
     \<lparr>next_urls = [Some ''https://en.wikipedia.org/wiki/Oktoberfest''],
        visited_urls = [],
        files = [ALL_URLS_FILE \<mapsto> \<lparr>header = [''urls''], lines = []\<rparr>]\<rparr>
   = Inl AttributeError"
  by (simp add: crawl_eval read_eval frame_eval)

subsection \<open>C8: the refill\<close>

text \<open>
  C8. The claim: the refill takes up to 100 addresses from the head of the overflow file,
  puts the base address before bare paths and leaves absolute addresses as they are, and
  leaves out the visited ones. With pandas as it is, the refill raises
  \<^verbatim>\<open>AttributeError\<close> at \<^verbatim>\<open>pd.read_csv_file\<close> and returns nothing. Were the file
  read with \<^verbatim>\<open>read_csv\<close>, the refill after a visit would put the base address before
  an absolute address as well; only the branch for no visited address tests
  \<^verbatim>\<open>startswith("https://")\<close>.
\<close>

theorem refill_raises_or_prefixes:
  "select_next_urls_to_jump_to (demo_env status_404 missing_attribute)
     [''https://en.wikipedia.org/wiki/Beer'']
     [ALL_URLS_FILE \<mapsto>
        \<lparr>header = [''urls''],
           lines = [[''https://de.wikipedia.org/wiki/Bier''], [''/wiki/Oktoberfest'']]\<rparr>]
   = Inl AttributeError \<and>
   select_next_urls_to_jump_to (demo_env status_404 (read_csv no_types))
     [''https://en.wikipedia.org/wiki/Beer'']
     [ALL_URLS_FILE \<mapsto>
        \<lparr>header = [''urls''],
           lines = [[''https://de.wikipedia.org/wiki/Bier''], [''/wiki/Oktoberfest'']]\<rparr>]
   = Inr ([''https://en.wikipedia.org/https://de.wikipedia.org/wiki/Bier'',
           ''https://en.wikipedia.org//wiki/Oktoberfest''],
          [ALL_URLS_FILE \<mapsto> \<lparr>header = [''urls''], lines = []\<rparr>])"
  by (simp add: crawl_eval read_eval frame_eval)

end
